theory Spec2Isabelle
  imports Complex_Main
begin

section \<open>Python values used by the notebooks\<close>

text \<open>
  An instance of Python's class \<open>Exception\<close>: the name of its class and the text that
  \<open>str(e)\<close> returns. These are the values the clause \<open>except Exception as e\<close> of the
  handlers binds.
\<close>

datatype exception = Raised (exc_type: string) (str: string)

definition ZeroDivisionError :: exception where
  "ZeroDivisionError = Raised ''ZeroDivisionError'' ''division by zero''"

definition OverflowError :: exception where
  "OverflowError = Raised ''OverflowError'' ''integer division result too large for a float''"

definition IndexError :: exception where
  "IndexError = Raised ''IndexError'' ''index out of bounds''"

text \<open>\<open>fastapi.HTTPException(status_code=..., detail=...)\<close>.\<close>

datatype http_exception = HTTPException (status_code: int) (detail: string)

text \<open>
  The dict literals the handlers return, which FastAPI serialises as JSON objects:
  keys in the order of the literal, values an \<open>int\<close> or a \<open>str\<close>.
\<close>

datatype json = JInt int | JStr string

type_synonym json_object = "(string \<times> json) list"

text \<open>\<open>class InputData(BaseModel): features: list\<close>.\<close>

record 'd InputData =
  features :: "'d list"

text \<open>
  What the notebook takes from numpy, scikit-learn and the interpreter, as parameters.
  Each call either raises an exception (\<open>Inl\<close>) or returns (\<open>Inr\<close>).
  \<^item> \<open>reshape_row fs\<close> is \<open>np.array(fs).reshape(1, -1)\<close>;
  \<^item> \<open>model\<close>, \<open>current_model\<close>, \<open>new_model\<close> are the three global estimators loaded by
    \<open>joblib.load\<close>; \<open>m x\<close> is \<open>m.predict(x)[0]\<close>;
  \<^item> \<open>py_int p\<close> is \<open>int(p)\<close>;
  \<^item> \<open>float_quot a b\<close> is the float that \<open>a / b\<close> yields on two ints with \<open>b \<noteq> 0\<close>, and
    \<open>None\<close> when the quotient is too large for a float. The type \<open>'r\<close> of floats is only
    required to be linearly ordered and to contain the int \<open>0\<close> the rates default to.
\<close>

record ('d, 'x, 'p, 'r) env =
  reshape_row :: "'d list \<Rightarrow> exception + 'x"
  model :: "'x \<Rightarrow> exception + 'p"
  current_model :: "'x \<Rightarrow> exception + 'p"
  new_model :: "'x \<Rightarrow> exception + 'p"
  py_int :: "'p \<Rightarrow> exception + int"
  float_quot :: "int \<Rightarrow> int \<Rightarrow> 'r option"

text \<open>True division \<open>a / b\<close> of two Python ints.\<close>

definition py_truediv :: "(int \<Rightarrow> int \<Rightarrow> 'r option) \<Rightarrow> int \<Rightarrow> int \<Rightarrow> exception + 'r" where
  "py_truediv fq a b =
     (if b = 0 then Inl ZeroDivisionError
      else case fq a b of None \<Rightarrow> Inl OverflowError | Some q \<Rightarrow> Inr q)"

text \<open>
  The wrapper every prediction handler is written in:
  \<^verbatim>\<open>
  try:
      ...
  except Exception as e:
      raise HTTPException(status_code=400, detail=str(e))
  \<close>
\<close>

definition catch_400 :: "exception + 'a \<Rightarrow> http_exception + 'a" where
  "catch_400 body = (case body of Inl e \<Rightarrow> Inl (HTTPException 400 (str e)) | Inr v \<Rightarrow> Inr v)"

text \<open>A handler that returned its dict, rather than raised.\<close>

fun answered :: "http_exception + 'a \<Rightarrow> bool" where
  "answered (Inr v) = True"
| "answered (Inl h) = False"

section \<open>Deployment Types: the handlers\<close>


subsection \<open>Single deployment\<close>

definition predict_single_body :: "('d, 'x, 'p, 'r) env \<Rightarrow> 'd InputData \<Rightarrow> exception + json_object" where
  "predict_single_body E data =
     (case reshape_row E (features data) of
        Inl e \<Rightarrow> Inl e
      | Inr x \<Rightarrow>
          (case model E x of
             Inl e \<Rightarrow> Inl e
           | Inr prediction \<Rightarrow>
               (case py_int E prediction of
                  Inl e \<Rightarrow> Inl e
                | Inr n \<Rightarrow> Inr [(''prediction'', JInt n)])))"

definition predict_single :: "('d, 'x, 'p, 'r) env \<Rightarrow> 'd InputData \<Rightarrow> http_exception + json_object" where
  "predict_single E data = catch_400 (predict_single_body E data)"

subsection \<open>Silent deployment\<close>

text \<open>
  The handler prints one line with both predictions; the second component of the result
  is what it printed (the pair of predictions of the line, none when it raised before).
\<close>

definition predict_silent_body ::
  "('d, 'x, 'p, 'r) env \<Rightarrow> 'd InputData \<Rightarrow> (exception + json_object) \<times> ('p \<times> 'p) list" where
  "predict_silent_body E data =
     (case reshape_row E (features data) of
        Inl e \<Rightarrow> (Inl e, [])
      | Inr x \<Rightarrow>
          (case current_model E x of
             Inl e \<Rightarrow> (Inl e, [])
           | Inr current_prediction \<Rightarrow>
               (case new_model E x of
                  Inl e \<Rightarrow> (Inl e, [])
                | Inr new_prediction \<Rightarrow>
                    (case py_int E current_prediction of
                       Inl e \<Rightarrow> (Inl e, [(current_prediction, new_prediction)])
                     | Inr n \<Rightarrow>
                         (Inr [(''prediction'', JInt n)],
                          [(current_prediction, new_prediction)])))))"

definition predict_silent ::
  "('d, 'x, 'p, 'r) env \<Rightarrow> 'd InputData \<Rightarrow> (http_exception + json_object) \<times> ('p \<times> 'p) list" where
  "predict_silent E data =
     (case predict_silent_body E data of (res, out) \<Rightarrow> (catch_400 res, out))"

subsection \<open>Canary deployment\<close>

text \<open>\<open>canary_percentage = 0.1\<close>.\<close>

definition canary_percentage :: rat where
  "canary_percentage = 1 / 10"

text \<open>The argument \<open>r\<close> is the value of the call \<open>random.random()\<close>.\<close>

definition predict_canary_body ::
  "('d, 'x, 'p, 'r) env \<Rightarrow> rat \<Rightarrow> 'd InputData \<Rightarrow> exception + json_object" where
  "predict_canary_body E r data =
     (case reshape_row E (features data) of
        Inl e \<Rightarrow> Inl e
      | Inr x \<Rightarrow>
          (case (if r < canary_percentage
                 then (case new_model E x of Inl e \<Rightarrow> Inl e | Inr p \<Rightarrow> Inr (p, ''new''))
                 else (case current_model E x of Inl e \<Rightarrow> Inl e | Inr p \<Rightarrow> Inr (p, ''current''))) of
             Inl e \<Rightarrow> Inl e
           | Inr (prediction, model_used) \<Rightarrow>
               (case py_int E prediction of
                  Inl e \<Rightarrow> Inl e
                | Inr n \<Rightarrow> Inr [(''prediction'', JInt n), (''model_used'', JStr model_used)])))"

definition predict_canary ::
  "('d, 'x, 'p, 'r) env \<Rightarrow> rat \<Rightarrow> 'd InputData \<Rightarrow> http_exception + json_object" where
  "predict_canary E r data = catch_400 (predict_canary_body E r data)"

subsection \<open>Multi-armed bandit deployment\<close>

text \<open>\<open>epsilon = 0.1\<close>, and the four global counters, all \<open>0\<close> when the cell has run.\<close>

definition epsilon :: rat where
  "epsilon = 1 / 10"

record bandit_state =
  current_model_correct :: int
  new_model_correct :: int
  current_model_count :: int
  new_model_count :: int

definition initial_state :: bandit_state where
  "initial_state =
     \<lparr>current_model_correct = 0, new_model_correct = 0,
      current_model_count = 0, new_model_count = 0\<rparr>"

text \<open>\<open>correct / count if count > 0 else 0\<close>.\<close>

definition success_rate ::
  "(int \<Rightarrow> int \<Rightarrow> 'r option) \<Rightarrow> int \<Rightarrow> int \<Rightarrow> exception + ('r::{zero,linorder})" where
  "success_rate fq correct count = (if count > 0 then py_truediv fq correct count else Inr 0)"

text \<open>The exploit branch: the value it assigns to \<open>use_new_model\<close>.\<close>

definition exploit :: "(int \<Rightarrow> int \<Rightarrow> ('r::{zero,linorder}) option) \<Rightarrow> bandit_state \<Rightarrow> exception + bool" where
  "exploit fq s =
     (case success_rate fq (current_model_correct s) (current_model_count s) of
        Inl e \<Rightarrow> Inl e
      | Inr current_rate \<Rightarrow>
          (case success_rate fq (new_model_correct s) (new_model_count s) of
             Inl e \<Rightarrow> Inl e
           | Inr new_rate \<Rightarrow> Inr (new_rate \<ge> current_rate)))"

text \<open>
  The random values of one request: \<open>random1\<close> is the value of the first call
  \<open>random.random()\<close>, \<open>random_choice\<close> the value of \<open>random.choice([True, False])\<close>
  (called on the explore branch only), \<open>random2\<close> the value of the second call
  \<open>random.random()\<close>.
\<close>

record draws =
  random1 :: rat
  random_choice :: bool
  random2 :: rat

text \<open>
  The first \<open>if\<close> of the body: the value of \<open>use_new_model\<close>, explored below \<open>epsilon\<close>
  and exploited otherwise.
\<close>

definition choose_model ::
  "('d, 'x, 'p, 'r::{zero,linorder}) env \<Rightarrow> bandit_state \<Rightarrow> draws \<Rightarrow> exception + bool" where
  "choose_model E s d =
     (if random1 d < epsilon then Inr (random_choice d) else exploit (float_quot E) s)"

text \<open>The counter of requests that the second \<open>if\<close> increments once the model has answered.\<close>

definition count_request :: "bandit_state \<Rightarrow> bool \<Rightarrow> bandit_state" where
  "count_request s use_new_model =
     (if use_new_model then s\<lparr>new_model_count := new_model_count s + 1\<rparr>
      else s\<lparr>current_model_count := current_model_count s + 1\<rparr>)"

text \<open>
  The simulated feedback: \<open>if random.random() < 0.8\<close>, the prediction counts as correct
  for the model used.
\<close>

definition simulate_feedback :: "bandit_state \<Rightarrow> bool \<Rightarrow> rat \<Rightarrow> bandit_state" where
  "simulate_feedback s use_new_model r =
     (if r < 8 / 10
      then (if use_new_model then s\<lparr>new_model_correct := new_model_correct s + 1\<rparr>
            else s\<lparr>current_model_correct := current_model_correct s + 1\<rparr>)
      else s)"

text \<open>
  The body of the \<open>try\<close> block, with the globals passed in and returned. An exception
  leaves the globals as the statements before it have set them: \<open>int(prediction)\<close> is
  evaluated last, in the \<open>return\<close>.
\<close>

definition predict_bandit_body ::
  "('d, 'x, 'p, 'r::{zero,linorder}) env \<Rightarrow> bandit_state \<Rightarrow> draws \<Rightarrow> 'd InputData
     \<Rightarrow> (exception + json_object) \<times> bandit_state" where
  "predict_bandit_body E s d data =
     (case reshape_row E (features data) of
        Inl e \<Rightarrow> (Inl e, s)
      | Inr x \<Rightarrow>
          (case choose_model E s d of
             Inl e \<Rightarrow> (Inl e, s)
           | Inr use_new_model \<Rightarrow>
               (case (if use_new_model then new_model E x else current_model E x) of
                  Inl e \<Rightarrow> (Inl e, s)
                | Inr prediction \<Rightarrow>
                    (let model_used = (if use_new_model then ''new'' else ''current'');
                         s' = simulate_feedback (count_request s use_new_model)
                                use_new_model (random2 d)
                     in (case py_int E prediction of
                           Inl e \<Rightarrow> (Inl e, s')
                         | Inr n \<Rightarrow>
                             (Inr [(''prediction'', JInt n), (''model_used'', JStr model_used)],
                              s'))))))"

definition predict_bandit ::
  "('d, 'x, 'p, 'r::{zero,linorder}) env \<Rightarrow> bandit_state \<Rightarrow> draws \<Rightarrow> 'd InputData
     \<Rightarrow> (http_exception + json_object) \<times> bandit_state" where
  "predict_bandit E s d data =
     (case predict_bandit_body E s d data of (res, s') \<Rightarrow> (catch_400 res, s'))"

text \<open>
  Requests served one after the other, each on the globals the one before left: the
  results in order, and the globals after the last request.
\<close>

fun serve_bandit ::
  "('d, 'x, 'p, 'r::{zero,linorder}) env \<Rightarrow> bandit_state \<Rightarrow> (draws \<times> 'd InputData) list
     \<Rightarrow> (http_exception + json_object) list \<times> bandit_state" where
  "serve_bandit E s [] = ([], s)"
| "serve_bandit E s ((d, data) # reqs) =
     (case predict_bandit E s d data of
        (res, s') \<Rightarrow> (case serve_bandit E s' reqs of (rs, s'') \<Rightarrow> (res # rs, s'')))"

subsection \<open>The application\<close>






section \<open>Metrics comparisons: the epsilon-greedy function\<close>

text \<open>
  \<open>multi_armed_bandit(model_a, model_b, X, y, n_rounds=1000, epsilon=0.1)\<close>. Its four
  counters are local variables.
\<close>

datatype arm = A | B

record mab_state =
  model_a_correct :: int
  model_b_correct :: int
  model_a_count :: int
  model_b_count :: int

definition mab_initial :: mab_state where
  "mab_initial =
     \<lparr>model_a_correct = 0, model_b_correct = 0, model_a_count = 0, model_b_count = 0\<rparr>"

text \<open>
  The exploit branch. Both rates are written as in the handler,
  \<open>correct / count if count > 0 else 0\<close>, which is \<open>success_rate\<close>.
\<close>

definition mab_exploit :: "(int \<Rightarrow> int \<Rightarrow> ('r::{zero,linorder}) option) \<Rightarrow> mab_state \<Rightarrow> exception + arm" where
  "mab_exploit fq st =
     (case success_rate fq (model_a_correct st) (model_a_count st) of
        Inl e \<Rightarrow> Inl e
      | Inr model_a_rate \<Rightarrow>
          (case success_rate fq (model_b_correct st) (model_b_count st) of
             Inl e \<Rightarrow> Inl e
           | Inr model_b_rate \<Rightarrow> Inr (if model_a_rate \<ge> model_b_rate then A else B)))"

text \<open>
  The random values of one round: \<open>np_random\<close> is the value of \<open>np.random.random()\<close>,
  \<open>np_choice\<close> of \<open>np.random.choice(['A', 'B'])\<close> (explore branch only), \<open>np_randint\<close> of
  \<open>np.random.randint(0, len(X))\<close>.
\<close>

record mab_draws =
  np_random :: rat
  np_choice :: arm
  np_randint :: nat

text \<open>
  One round of the loop. \<open>X\<close> and \<open>y\<close> are lists; \<open>X[idx:idx+1]\<close> is a slice and never
  raises, \<open>y[idx]\<close> raises out of range, and \<open>randint\<close> raises on an empty range.
  \<open>model_a xs\<close> is \<open>model_a.predict(xs)[0]\<close>.
\<close>

definition mab_round ::
  "('x list \<Rightarrow> exception + 'p) \<Rightarrow> ('x list \<Rightarrow> exception + 'p) \<Rightarrow> 'x list \<Rightarrow> 'p list \<Rightarrow> rat
     \<Rightarrow> (int \<Rightarrow> int \<Rightarrow> ('r::{zero,linorder}) option) \<Rightarrow> mab_state \<Rightarrow> mab_draws
     \<Rightarrow> exception + mab_state" where
  "mab_round model_a model_b X y eps fq st d =
     (case (if np_random d < eps then Inr (np_choice d) else mab_exploit fq st) of
        Inl e \<Rightarrow> Inl e
      | Inr chosen_model \<Rightarrow>
          if length X = 0 then Inl (Raised ''ValueError'' ''low >= high'')
          else if length y \<le> np_randint d then Inl IndexError
          else
            (let idx = np_randint d; x = take 1 (drop idx X); true_y = y ! idx in
             if chosen_model = A
             then (case model_a x of
                     Inl e \<Rightarrow> Inl e
                   | Inr pred \<Rightarrow>
                       Inr (st\<lparr>model_a_count := model_a_count st + 1,
                               model_a_correct :=
                                 (if pred = true_y then model_a_correct st + 1
                                  else model_a_correct st)\<rparr>))
             else (case model_b x of
                     Inl e \<Rightarrow> Inl e
                   | Inr pred \<Rightarrow>
                       Inr (st\<lparr>model_b_count := model_b_count st + 1,
                               model_b_correct :=
                                 (if pred = true_y then model_b_correct st + 1
                                  else model_b_correct st)\<rparr>))))"

text \<open>The loop, one element of \<open>ds\<close> for each of the \<open>n_rounds\<close> rounds.\<close>

fun mab_rounds ::
  "('x list \<Rightarrow> exception + 'p) \<Rightarrow> ('x list \<Rightarrow> exception + 'p) \<Rightarrow> 'x list \<Rightarrow> 'p list \<Rightarrow> rat
     \<Rightarrow> (int \<Rightarrow> int \<Rightarrow> ('r::{zero,linorder}) option) \<Rightarrow> mab_state \<Rightarrow> mab_draws list
     \<Rightarrow> exception + mab_state" where
  "mab_rounds model_a model_b X y eps fq st [] = Inr st"
| "mab_rounds model_a model_b X y eps fq st (d # ds) =
     (case mab_round model_a model_b X y eps fq st d of
        Inl e \<Rightarrow> Inl e
      | Inr st' \<Rightarrow> mab_rounds model_a model_b X y eps fq st' ds)"

text \<open>
  The whole function: what its four \<open>print\<close> calls show (the two accuracies and the
  two counts). The accuracies are divisions without a guard.
\<close>

definition multi_armed_bandit ::
  "('x list \<Rightarrow> exception + 'p) \<Rightarrow> ('x list \<Rightarrow> exception + 'p) \<Rightarrow> 'x list \<Rightarrow> 'p list \<Rightarrow> rat
     \<Rightarrow> (int \<Rightarrow> int \<Rightarrow> ('r::{zero,linorder}) option) \<Rightarrow> mab_draws list
     \<Rightarrow> exception + ('r \<times> 'r \<times> int \<times> int)" where
  "multi_armed_bandit model_a model_b X y eps fq ds =
     (case mab_rounds model_a model_b X y eps fq mab_initial ds of
        Inl e \<Rightarrow> Inl e
      | Inr st \<Rightarrow>
          (case py_truediv fq (model_a_correct st) (model_a_count st) of
             Inl e \<Rightarrow> Inl e
           | Inr acc_a \<Rightarrow>
               (case py_truediv fq (model_b_correct st) (model_b_count st) of
                  Inl e \<Rightarrow> Inl e
                | Inr acc_b \<Rightarrow> Inr (acc_a, acc_b, model_a_count st, model_b_count st))))"

text \<open>
  The correspondence between the two routers: the current model is model A, the new
  model is model B.
\<close>

definition mab_of_bandit :: "bandit_state \<Rightarrow> mab_state" where
  "mab_of_bandit s =
     \<lparr>model_a_correct = current_model_correct s, model_b_correct = new_model_correct s,
      model_a_count = current_model_count s, model_b_count = new_model_count s\<rparr>"

definition arm_of :: "bool \<Rightarrow> arm" where
  "arm_of use_new_model = (if use_new_model then B else A)"

section \<open>The YAML configuration example\<close>

text \<open>
  The example \<open>config.yaml\<close> of the lesson (the cheat sheet's example and the file the
  exercise ends with are the same text), line by line.
\<close>

definition config_yaml :: "string list" where
  \<open>config_yaml =
     [''project_name: "my_ml_project"'',
      '''',
      ''experiment:'',
      ''  name: "baseline_model"'',
      ''  type: "classification"'',
      '''',
      ''data:'',
      ''  source: "data/iris.csv"'',
      ''  validation_split: 0.2'',
      ''  test_split: 0.1'',
      '''',
      ''model:'',
      ''  type: "random_forest"'',
      ''  hyperparameters:'',
      ''    n_estimators: 100'',
      ''    max_depth: 5'',
      ''    random_state: 42'',
      '''',
      ''output:'',
      ''  model_path: "models/"'',
      ''  logs_path: "logs/"'']\<close>

text \<open>
  \<open>yaml.safe_load\<close> is PyYAML's, not the lesson's. It is modelled here for the documents
  the lesson writes: block mappings, one \<open>key: value\<close> or \<open>key:\<close> per line, nested by
  indentation, with double-quoted strings, decimal ints and decimal fractions as
  scalars, keys distinct within a mapping, no comments, no lists and no empty sections.
  The nested dict it returns is kept by its leaves, each under the path of keys that
  leads to it, in the order of the document.
\<close>

datatype scalar = YStr string | YInt int | YFloat rat

datatype yaml = Leaf scalar | Dict "(string list \<times> scalar) list"

definition is_digit :: "char \<Rightarrow> bool" where
  "is_digit c = (48 \<le> (of_char c :: nat) \<and> (of_char c :: nat) \<le> 57)"

definition digits_value :: "string \<Rightarrow> nat" where
  "digits_value s = foldl (\<lambda>n c. 10 * n + ((of_char c :: nat) - 48)) 0 s"

definition is_digits :: "string \<Rightarrow> bool" where
  "is_digits s = (s \<noteq> [] \<and> list_all is_digit s)"

definition parse_scalar :: "string \<Rightarrow> scalar" where
  "parse_scalar s =
     (let whole = takeWhile (\<lambda>c. c \<noteq> CHR ''.'') s;
          frac = drop 1 (dropWhile (\<lambda>c. c \<noteq> CHR ''.'') s)
      in if 2 \<le> length s \<and> hd s = CHR 0x22 \<and> last s = CHR 0x22 then YStr (butlast (tl s))
         else if is_digits s then YInt (int (digits_value s))
         else if is_digits whole \<and> is_digits frac
           then YFloat (of_nat (digits_value (whole @ frac)) / 10 ^ length frac)
         else YStr s)"

text \<open>
  A line that is not blank: its indentation, its key, and its scalar when it has one.
  \<open>None\<close> for a line with no colon, which is not an entry of a mapping.
\<close>

definition parse_entry :: "string \<Rightarrow> (nat \<times> string \<times> scalar option) option" where
  "parse_entry l =
     (let indent = length (takeWhile (\<lambda>c. c = CHR '' '') l);
          body = drop indent l;
          key = takeWhile (\<lambda>c. c \<noteq> CHR '':'') body;
          v = dropWhile (\<lambda>c. c = CHR '' '') (drop 1 (dropWhile (\<lambda>c. c \<noteq> CHR '':'') body))
      in if \<not> list_ex (\<lambda>c. c = CHR '':'') body then None
         else Some (indent, key, if v = [] then None else Some (parse_scalar v)))"

text \<open>
  The leaves of the entries, in order. The first argument is the chain of open sections,
  innermost first, each with its indentation; an entry closes the sections that are
  not indented less than itself.
\<close>

fun load_entries ::
  "(nat \<times> string) list \<Rightarrow> (nat \<times> string \<times> scalar option) list \<Rightarrow> (string list \<times> scalar) list" where
  "load_entries open_sections [] = []"
| "load_entries open_sections ((indent, key, v) # es) =
     (let outer = dropWhile (\<lambda>(m, _). indent \<le> m) open_sections;
          path = rev (map snd outer) @ [key]
      in case v of
           None \<Rightarrow> load_entries ((indent, key) # outer) es
         | Some sc \<Rightarrow> (path, sc) # load_entries outer es)"

definition safe_load :: "string list \<Rightarrow> exception + yaml" where
  "safe_load ls =
     (case those (map parse_entry (filter (list_ex (\<lambda>c. c \<noteq> CHR '' '')) ls)) of
        None \<Rightarrow> Inl (Raised ''YAMLError'' ''could not find expected ':' '')
      | Some es \<Rightarrow> Inr (Dict (load_entries [] es)))"

text \<open>\<open>d[k]\<close> on what \<open>safe_load\<close> returned, and \<open>list(d.keys())\<close>.\<close>

fun getitem :: "yaml \<Rightarrow> string \<Rightarrow> exception + yaml" where
  "getitem (Leaf v) k = Inl (Raised ''TypeError'' ''indices must be integers'')"
| "getitem (Dict leaves) k =
     (case [(rest, v). (k' # rest, v) \<leftarrow> leaves, k' = k] of
        [] \<Rightarrow> Inl (Raised ''KeyError'' k)
      | ([], v) # _ \<Rightarrow> Inr (Leaf v)
      | sub \<Rightarrow> Inr (Dict sub))"

fun keys :: "yaml \<Rightarrow> string list" where
  "keys (Leaf v) = []"
| "keys (Dict leaves) = remdups [k. (k # rest, v) \<leftarrow> leaves]"

text \<open>
  The snippet of the cheat sheet, on the lines of the file:
  \<^verbatim>\<open>
  config = yaml.safe_load(file)
  print(config['experiment']['name'])
  \<close>
\<close>

definition experiment_name :: "string list \<Rightarrow> exception + yaml" where
  "experiment_name file =
     (case safe_load file of
        Inl e \<Rightarrow> Inl e
      | Inr config \<Rightarrow>
          (case getitem config ''experiment'' of
             Inl e \<Rightarrow> Inl e
           | Inr experiment \<Rightarrow> getitem experiment ''name''))"

section \<open>A small environment to evaluate the handlers on\<close>

text \<open>
  Feature rows are lists of ints, and the estimators want two features: the current
  model always answers \<open>0\<close>, the new model \<open>1\<close>. Quotients are exact rationals, which is
  what float division yields on the small counters used below.
\<close>

definition exact_quot :: "int \<Rightarrow> int \<Rightarrow> rat option" where
  "exact_quot a b = Some (of_int a / of_int b)"

definition wants_two :: "int \<Rightarrow> int list \<Rightarrow> exception + int" where
  "wants_two label x =
     (if length x = 2 then Inr label
      else Inl (Raised ''ValueError'' ''X has the wrong number of features''))"

definition toy_env :: "(int, int list, int, rat) env" where
  "toy_env =
     \<lparr>reshape_row = (\<lambda>fs. if fs = []
                          then Inl (Raised ''ValueError'' ''cannot reshape array of size 0'')
                          else Inr fs),
      model = wants_two 1,
      current_model = wants_two 0,
      new_model = wants_two 1,
      py_int = Inr,
      float_quot = exact_quot\<rparr>"

definition two_features :: "int InputData" where
  "two_features = \<lparr>features = [3, 4]\<rparr>"

definition no_features :: "int InputData" where
  "no_features = \<lparr>features = []\<rparr>"

lemmas toy_defs = toy_env_def wants_two_def exact_quot_def two_features_def no_features_def

section \<open>Properties of the handlers\<close>

text \<open>
  The draws and the literals. A value of \<open>random.random()\<close> is a float \<open>k / 2^53\<close>, and
  the literals \<open>0.1\<close> and \<open>0.8\<close> are the floats \<open>3602879701896397 / 2^55\<close> and
  \<open>3602879701896397 / 2^52\<close>. The model compares a draw with \<open>1 / 10\<close> and \<open>8 / 10\<close>: on
  every value \<open>random.random()\<close> can return, that is the comparison with the float.
\<close>

lemma random_below_literals:
  fixes k :: nat
  shows "(of_nat k / 2 ^ 53 < epsilon) \<longleftrightarrow> ((of_nat k / 2 ^ 53 :: rat) < 3602879701896397 / 2 ^ 55)"
    and "(of_nat k / 2 ^ 53 < canary_percentage) \<longleftrightarrow> ((of_nat k / 2 ^ 53 :: rat) < 3602879701896397 / 2 ^ 55)"
    and "((of_nat k / 2 ^ 53 :: rat) < 8 / 10) \<longleftrightarrow> ((of_nat k / 2 ^ 53 :: rat) < 3602879701896397 / 2 ^ 52)"
proof -
  have a: "(of_nat k / 2 ^ 53 :: rat) < 1 / 10 \<longleftrightarrow> k \<le> 900719925474099"
  proof -
    have "(of_nat k / 2 ^ 53 :: rat) < 1 / 10 \<longleftrightarrow> (of_nat (10 * k) :: rat) < of_nat 9007199254740992"
      by (simp add: field_simps)
    also have "\<dots> \<longleftrightarrow> 10 * k < 9007199254740992"
      by (simp only: of_nat_less_iff)
    also have "\<dots> \<longleftrightarrow> k \<le> 900719925474099"
      by arith
    finally show ?thesis .
  qed
  have b: "(of_nat k / 2 ^ 53 :: rat) < 3602879701896397 / 2 ^ 55 \<longleftrightarrow> k \<le> 900719925474099"
  proof -
    have "(of_nat k / 2 ^ 53 :: rat) < 3602879701896397 / 2 ^ 55 \<longleftrightarrow> (of_nat (4 * k) :: rat) < of_nat 3602879701896397"
      by (simp add: field_simps)
    also have "\<dots> \<longleftrightarrow> 4 * k < 3602879701896397"
      by (simp only: of_nat_less_iff)
    also have "\<dots> \<longleftrightarrow> k \<le> 900719925474099"
      by arith
    finally show ?thesis .
  qed
  have c: "(of_nat k / 2 ^ 53 :: rat) < 8 / 10 \<longleftrightarrow> k \<le> 7205759403792793"
  proof -
    have "(of_nat k / 2 ^ 53 :: rat) < 8 / 10 \<longleftrightarrow> (of_nat (10 * k) :: rat) < of_nat 72057594037927936"
      by (simp add: field_simps)
    also have "\<dots> \<longleftrightarrow> 10 * k < 72057594037927936"
      by (simp only: of_nat_less_iff)
    also have "\<dots> \<longleftrightarrow> k \<le> 7205759403792793"
      by arith
    finally show ?thesis .
  qed
  have d: "(of_nat k / 2 ^ 53 :: rat) < 3602879701896397 / 2 ^ 52 \<longleftrightarrow> k \<le> 7205759403792793"
  proof -
    have "(of_nat k / 2 ^ 53 :: rat) < 3602879701896397 / 2 ^ 52 \<longleftrightarrow> (of_nat k :: rat) < of_nat 7205759403792794"
      by (simp add: field_simps)
    also have "\<dots> \<longleftrightarrow> k < 7205759403792794"
      by (simp only: of_nat_less_iff)
    also have "\<dots> \<longleftrightarrow> k \<le> 7205759403792793"
      by arith
    finally show ?thesis .
  qed
  from a b show "(of_nat k / 2 ^ 53 < epsilon) \<longleftrightarrow> ((of_nat k / 2 ^ 53 :: rat) < 3602879701896397 / 2 ^ 55)"
    by (simp only: epsilon_def)
  from a b show "(of_nat k / 2 ^ 53 < canary_percentage) \<longleftrightarrow> ((of_nat k / 2 ^ 53 :: rat) < 3602879701896397 / 2 ^ 55)"
    by (simp only: canary_percentage_def)
  from c d show "((of_nat k / 2 ^ 53 :: rat) < 8 / 10) \<longleftrightarrow> ((of_nat k / 2 ^ 53 :: rat) < 3602879701896397 / 2 ^ 52)"
    by (simp only:)
qed

lemma catch_400_Inr: "catch_400 b = Inr v \<longleftrightarrow> b = Inr v"
  by (cases b) (simp_all add: catch_400_def)

lemma catch_400_Inl: "catch_400 b = Inl h \<longleftrightarrow> (\<exists>e. b = Inl e \<and> h = HTTPException 400 (str e))"
  by (cases b) (auto simp: catch_400_def)

subsection \<open>Canary routing\<close>

text \<open>
  Claim C6. The /predict/canary handler answers exactly when the row can be built, the
  model the draw selects answers and its prediction converts by \<open>int\<close>; the model
  selected is the new model when the draw is strictly below \<open>canary_percentage\<close> and
  the current model otherwise, and the answer is that model's prediction with
  \<open>model_used\<close> "new", respectively "current".
\<close>

theorem predict_canary_routes:
  "predict_canary E r data = Inr resp \<longleftrightarrow>
     (\<exists>x p n. reshape_row E (features data) = Inr x \<and> py_int E p = Inr n \<and>
        (if r < canary_percentage
         then new_model E x = Inr p \<and>
              resp = [(''prediction'', JInt n), (''model_used'', JStr ''new'')]
         else current_model E x = Inr p \<and>
              resp = [(''prediction'', JInt n), (''model_used'', JStr ''current'')]))"
proof
  assume "predict_canary E r data = Inr resp"
  then have body: "predict_canary_body E r data = Inr resp"
    by (simp add: predict_canary_def catch_400_Inr)
  then obtain x where x: "reshape_row E (features data) = Inr x"
    by (auto simp: predict_canary_body_def split: sum.splits)
  show "\<exists>x p n. reshape_row E (features data) = Inr x \<and> py_int E p = Inr n \<and>
        (if r < canary_percentage
         then new_model E x = Inr p \<and>
              resp = [(''prediction'', JInt n), (''model_used'', JStr ''new'')]
         else current_model E x = Inr p \<and>
              resp = [(''prediction'', JInt n), (''model_used'', JStr ''current'')])"
  proof (cases "r < canary_percentage")
    case True
    with body x show ?thesis
      by (auto simp: predict_canary_body_def split: sum.splits)
  next
    case False
    with body x show ?thesis
      by (auto simp: predict_canary_body_def split: sum.splits)
  qed
next
  assume "\<exists>x p n. reshape_row E (features data) = Inr x \<and> py_int E p = Inr n \<and>
        (if r < canary_percentage
         then new_model E x = Inr p \<and>
              resp = [(''prediction'', JInt n), (''model_used'', JStr ''new'')]
         else current_model E x = Inr p \<and>
              resp = [(''prediction'', JInt n), (''model_used'', JStr ''current'')])"
  then obtain x p n where x: "reshape_row E (features data) = Inr x"
    and n: "py_int E p = Inr n"
    and sel: "if r < canary_percentage
         then new_model E x = Inr p \<and>
              resp = [(''prediction'', JInt n), (''model_used'', JStr ''new'')]
         else current_model E x = Inr p \<and>
              resp = [(''prediction'', JInt n), (''model_used'', JStr ''current'')]"
    by blast
  show "predict_canary E r data = Inr resp"
  proof (cases "r < canary_percentage")
    case True
    with x n sel show ?thesis
      by (simp add: predict_canary_def predict_canary_body_def catch_400_def)
  next
    case False
    with x n sel show ?thesis
      by (simp add: predict_canary_def predict_canary_body_def catch_400_def)
  qed
qed

theorem predict_canary_routes_witness:
  "predict_canary toy_env 0 two_features
     = Inr [(''prediction'', JInt 1), (''model_used'', JStr ''new'')] \<and>
   predict_canary toy_env (1 / 20) two_features
     = Inr [(''prediction'', JInt 1), (''model_used'', JStr ''new'')] \<and>
   predict_canary toy_env (1 / 10) two_features
     = Inr [(''prediction'', JInt 0), (''model_used'', JStr ''current'')] \<and>
   predict_canary toy_env (1 / 2) two_features
     = Inr [(''prediction'', JInt 0), (''model_used'', JStr ''current'')]"
proof -
  have lib: "reshape_row toy_env (features two_features) = Inr [3, 4]"
    "new_model toy_env [3, 4] = Inr 1" "current_model toy_env [3, 4] = Inr 0"
    "py_int toy_env 1 = Inr 1" "py_int toy_env 0 = Inr 0"
    by (simp_all add: toy_defs)
  have below: "(0 :: rat) < canary_percentage" "(1 / 20 :: rat) < canary_percentage"
    and above: "\<not> (1 / 10 :: rat) < canary_percentage" "\<not> (1 / 2 :: rat) < canary_percentage"
    by (simp_all add: canary_percentage_def)
  have new: "predict_canary toy_env r two_features
      = Inr [(''prediction'', JInt 1), (''model_used'', JStr ''new'')]"
    if "r < canary_percentage" for r
    using predict_canary_routes
      [of toy_env r two_features "[(''prediction'', JInt 1), (''model_used'', JStr ''new'')]"]
      lib that
    by auto
  have cur: "predict_canary toy_env r two_features
      = Inr [(''prediction'', JInt 0), (''model_used'', JStr ''current'')]"
    if "\<not> r < canary_percentage" for r
    using predict_canary_routes
      [of toy_env r two_features "[(''prediction'', JInt 0), (''model_used'', JStr ''current'')]"]
      lib that
    by auto
  from new [OF below(1)] new [OF below(2)] cur [OF above(1)] cur [OF above(2)]
  show ?thesis
    by (intro conjI)
qed

subsection \<open>Errors\<close>

text \<open>
  Claim C3. Each of the four prediction handlers raises exactly when its body raises,
  and what it raises is \<open>HTTPException\<close> with status code 400 and the \<open>str\<close> of the
  exception caught as detail: the handlers have no other error result.
\<close>

theorem handlers_raise_400:
  "(predict_single E data = Inl h \<longleftrightarrow>
      (\<exists>e. predict_single_body E data = Inl e \<and> h = HTTPException 400 (str e))) \<and>
   (fst (predict_silent E data) = Inl h \<longleftrightarrow>
      (\<exists>e. fst (predict_silent_body E data) = Inl e \<and> h = HTTPException 400 (str e))) \<and>
   (predict_canary E r data = Inl h \<longleftrightarrow>
      (\<exists>e. predict_canary_body E r data = Inl e \<and> h = HTTPException 400 (str e))) \<and>
   (fst (predict_bandit E s d data) = Inl h \<longleftrightarrow>
      (\<exists>e. fst (predict_bandit_body E s d data) = Inl e \<and> h = HTTPException 400 (str e)))"
proof -
  have single: "predict_single E data = Inl h \<longleftrightarrow>
      (\<exists>e. predict_single_body E data = Inl e \<and> h = HTTPException 400 (str e))"
    by (simp add: predict_single_def catch_400_Inl)
  have silent: "fst (predict_silent E data) = Inl h \<longleftrightarrow>
      (\<exists>e. fst (predict_silent_body E data) = Inl e \<and> h = HTTPException 400 (str e))"
    by (cases "predict_silent_body E data") (simp add: predict_silent_def catch_400_Inl)
  have canary: "predict_canary E r data = Inl h \<longleftrightarrow>
      (\<exists>e. predict_canary_body E r data = Inl e \<and> h = HTTPException 400 (str e))"
    by (simp add: predict_canary_def catch_400_Inl)
  have bandit: "fst (predict_bandit E s d data) = Inl h \<longleftrightarrow>
      (\<exists>e. fst (predict_bandit_body E s d data) = Inl e \<and> h = HTTPException 400 (str e))"
    by (cases "predict_bandit_body E s d data") (simp add: predict_bandit_def catch_400_Inl)
  from single silent canary bandit show ?thesis
    by blast
qed

theorem handlers_raise_400_witness:
  "predict_single_body toy_env no_features
     = Inl (Raised ''ValueError'' ''cannot reshape array of size 0'') \<and>
   predict_single toy_env no_features
     = Inl (HTTPException 400 ''cannot reshape array of size 0'') \<and>
   fst (predict_bandit toy_env initial_state
          \<lparr>random1 = 1 / 2, random_choice = False, random2 = 0\<rparr> \<lparr>features = [7]\<rparr>)
     = Inl (HTTPException 400 ''X has the wrong number of features'')"
proof -
  have body: "predict_single_body toy_env no_features
      = Inl (Raised ''ValueError'' ''cannot reshape array of size 0'')"
    by (simp add: predict_single_body_def toy_defs)
  have bandit: "fst (predict_bandit_body toy_env initial_state
          \<lparr>random1 = 1 / 2, random_choice = False, random2 = 0\<rparr> \<lparr>features = [7]\<rparr>)
      = Inl (Raised ''ValueError'' ''X has the wrong number of features'')"
    by (simp add: predict_bandit_body_def choose_model_def exploit_def success_rate_def
        initial_state_def epsilon_def toy_defs)
  from handlers_raise_400
         [where E = toy_env and data = no_features
            and h = "HTTPException 400 ''cannot reshape array of size 0''"]
       handlers_raise_400
         [where E = toy_env and s = initial_state
            and d = "\<lparr>random1 = 1 / 2, random_choice = False, random2 = 0\<rparr>"
            and data = "\<lparr>features = [7]\<rparr>"
            and h = "HTTPException 400 ''X has the wrong number of features''"]
       body bandit
  show ?thesis
    by simp
qed

subsection \<open>The exploit branch of the bandit\<close>

lemma predict_bandit_Inr:
  "predict_bandit E s d data = (Inr resp, s') \<longleftrightarrow> predict_bandit_body E s d data = (Inr resp, s')"
  by (cases "predict_bandit_body E s d data") (simp add: predict_bandit_def catch_400_Inr)

text \<open>
  What an answered request has done, by the value \<open>use_new_model\<close> had: the model
  asked, the counter of requests that went up, and the answer.
\<close>

lemma predict_bandit_body_answer:
  assumes "predict_bandit_body E s d data = (Inr resp, s')"
  shows "\<exists>use_new_model x p n.
           choose_model E s d = Inr use_new_model \<and>
           reshape_row E (features data) = Inr x \<and>
           (if use_new_model then new_model E x else current_model E x) = Inr p \<and>
           py_int E p = Inr n \<and>
           resp = [(''prediction'', JInt n),
                   (''model_used'', JStr (if use_new_model then ''new'' else ''current''))] \<and>
           s' = simulate_feedback (count_request s use_new_model) use_new_model (random2 d)"
proof (cases "reshape_row E (features data)")
  case (Inl e)
  with assms show ?thesis
    by (simp add: predict_bandit_body_def)
next
  case x: (Inr x)
  show ?thesis
  proof (cases "choose_model E s d")
    case (Inl e)
    with assms x show ?thesis
      by (simp add: predict_bandit_body_def)
  next
    case u: (Inr u)
    show ?thesis
    proof (cases "if u then new_model E x else current_model E x")
      case (Inl e)
      with assms x u show ?thesis
        by (simp add: predict_bandit_body_def)
    next
      case p: (Inr p)
      show ?thesis
      proof (cases "py_int E p")
        case (Inl e)
        with assms x u p show ?thesis
          by (simp add: predict_bandit_body_def)
      next
        case n: (Inr n)
        from assms have "resp = [(''prediction'', JInt n),
              (''model_used'', JStr (if u then ''new'' else ''current''))]
            \<and> s' = simulate_feedback (count_request s u) u (random2 d)"
          by (simp add: predict_bandit_body_def x u p n Let_def)
        with x u p n show ?thesis
          by blast
      qed
    qed
  qed
qed

lemma count_request_simps:
  "new_model_count (count_request s u) = new_model_count s + (if u then 1 else 0)"
  "current_model_count (count_request s u) = current_model_count s + (if u then 0 else 1)"
  "new_model_correct (count_request s u) = new_model_correct s"
  "current_model_correct (count_request s u) = current_model_correct s"
  by (simp_all add: count_request_def)

lemma simulate_feedback_simps:
  "new_model_count (simulate_feedback s u r) = new_model_count s"
  "current_model_count (simulate_feedback s u r) = current_model_count s"
  "new_model_correct (simulate_feedback s u r)
     = new_model_correct s + (if u \<and> r < 8 / 10 then 1 else 0)"
  "current_model_correct (simulate_feedback s u r)
     = current_model_correct s + (if \<not> u \<and> r < 8 / 10 then 1 else 0)"
  by (simp_all add: simulate_feedback_def)

lemma feedback_after_count:
  "simulate_feedback (count_request s u) u r
     = (if u
        then s\<lparr>new_model_count := new_model_count s + 1,
               new_model_correct := new_model_correct s + (if r < 8 / 10 then 1 else 0)\<rparr>
        else s\<lparr>current_model_count := current_model_count s + 1,
               current_model_correct :=
                 current_model_correct s + (if r < 8 / 10 then 1 else 0)\<rparr>)"
  by (simp add: simulate_feedback_def count_request_def)

text \<open>When every call of the body returns, so does the body.\<close>

lemma predict_bandit_body_run:
  assumes "reshape_row E (features data) = Inr x"
    and "choose_model E s d = Inr u"
    and "(if u then new_model E x else current_model E x) = Inr p"
    and "py_int E p = Inr n"
  shows "predict_bandit_body E s d data
           = (Inr [(''prediction'', JInt n),
                   (''model_used'', JStr (if u then ''new'' else ''current''))],
              simulate_feedback (count_request s u) u (random2 d))"
  using assms by (simp add: predict_bandit_body_def Let_def)

text \<open>The globals after a request, answered or not.\<close>

lemma predict_bandit_body_state:
  "snd (predict_bandit_body E s d data)
     = (case reshape_row E (features data) of
          Inl e \<Rightarrow> s
        | Inr x \<Rightarrow>
            (case choose_model E s d of
               Inl e \<Rightarrow> s
             | Inr u \<Rightarrow>
                 (case (if u then new_model E x else current_model E x) of
                    Inl e \<Rightarrow> s
                  | Inr p \<Rightarrow> simulate_feedback (count_request s u) u (random2 d))))"
proof (cases "reshape_row E (features data)")
  case (Inl e)
  then show ?thesis
    by (simp add: predict_bandit_body_def)
next
  case x: (Inr x)
  show ?thesis
  proof (cases "choose_model E s d")
    case (Inl e)
    with x show ?thesis
      by (simp add: predict_bandit_body_def)
  next
    case u: (Inr u)
    show ?thesis
    proof (cases "if u then new_model E x else current_model E x")
      case (Inl e)
      with x u show ?thesis
        by (simp add: predict_bandit_body_def)
    next
      case p: (Inr p)
      show ?thesis
      proof (cases "py_int E p")
        case (Inl e)
        with x u p show ?thesis
          by (simp add: predict_bandit_body_def Let_def)
      next
        case (Inr n)
        with x u p show ?thesis
          by (simp add: predict_bandit_body_def Let_def)
      qed
    qed
  qed
qed

lemma exploit_of_rates:
  assumes "success_rate fq (current_model_correct s) (current_model_count s) = Inr current_rate"
    and "success_rate fq (new_model_correct s) (new_model_count s) = Inr new_rate"
  shows "exploit fq s = Inr (new_rate \<ge> current_rate)"
  using assms by (simp add: exploit_def)

lemma exploit_Inr:
  assumes "exploit fq s = Inr u"
  shows "\<exists>current_rate new_rate.
           success_rate fq (current_model_correct s) (current_model_count s) = Inr current_rate \<and>
           success_rate fq (new_model_correct s) (new_model_count s) = Inr new_rate \<and>
           u = (new_rate \<ge> current_rate)"
  using assms by (auto simp: exploit_def split: sum.splits)

text \<open>
  Claim C1. On the exploit branch (the draw is not below \<open>epsilon\<close>) the handler selects
  the new model if and only if the new rate is greater than or equal to the current
  rate, each rate being \<open>correct / count\<close> when the count is positive and \<open>0\<close> otherwise:
  that comparison is the value of \<open>use_new_model\<close>, and the request is answered exactly
  when the row can be built, the model so selected answers and its prediction converts
  by \<open>int\<close>. The answer then carries that model's prediction and its name, and the
  counters that went up are that model's.
\<close>

theorem predict_bandit_exploit:
  assumes "\<not> random1 d < epsilon"
  shows "(\<forall>correct count. success_rate (float_quot E) correct count
            = (if count > 0 then py_truediv (float_quot E) correct count else Inr 0)) \<and>
         (\<forall>current_rate new_rate.
            success_rate (float_quot E) (current_model_correct s) (current_model_count s)
              = Inr current_rate \<and>
            success_rate (float_quot E) (new_model_correct s) (new_model_count s)
              = Inr new_rate
            \<longrightarrow> choose_model E s d = Inr (new_rate \<ge> current_rate)) \<and>
         (predict_bandit E s d data = (Inr resp, s') \<longleftrightarrow>
            (\<exists>current_rate new_rate x p n.
               success_rate (float_quot E) (current_model_correct s) (current_model_count s)
                 = Inr current_rate \<and>
               success_rate (float_quot E) (new_model_correct s) (new_model_count s)
                 = Inr new_rate \<and>
               reshape_row E (features data) = Inr x \<and> py_int E p = Inr n \<and>
               (if new_rate \<ge> current_rate
                then new_model E x = Inr p \<and>
                     resp = [(''prediction'', JInt n), (''model_used'', JStr ''new'')] \<and>
                     s' = s\<lparr>new_model_count := new_model_count s + 1,
                            new_model_correct :=
                              new_model_correct s + (if random2 d < 8 / 10 then 1 else 0)\<rparr>
                else current_model E x = Inr p \<and>
                     resp = [(''prediction'', JInt n), (''model_used'', JStr ''current'')] \<and>
                     s' = s\<lparr>current_model_count := current_model_count s + 1,
                            current_model_correct :=
                              current_model_correct s
                                + (if random2 d < 8 / 10 then 1 else 0)\<rparr>)))"
    (is "?rate \<and> ?choice \<and> (?answered \<longleftrightarrow> ?calls)")
proof -
  from assms have choose: "choose_model E s d = exploit (float_quot E) s"
    by (simp add: choose_model_def)
  have rate: ?rate
    by (simp add: success_rate_def)
  have choice: ?choice
    using choose by (simp add: exploit_of_rates)
  have "?answered \<longleftrightarrow> ?calls"
  proof
    assume ?answered
    then have "predict_bandit_body E s d data = (Inr resp, s')"
      by (simp add: predict_bandit_Inr)
    from predict_bandit_body_answer [OF this]
    obtain u x p n where
      u: "choose_model E s d = Inr u"
      and x: "reshape_row E (features data) = Inr x"
      and p: "(if u then new_model E x else current_model E x) = Inr p"
      and n: "py_int E p = Inr n"
      and resp: "resp = [(''prediction'', JInt n),
                         (''model_used'', JStr (if u then ''new'' else ''current''))]"
      and s': "s' = simulate_feedback (count_request s u) u (random2 d)"
      by blast
    from u choose have "exploit (float_quot E) s = Inr u"
      by simp
    from exploit_Inr [OF this] obtain rc rn where
      rc: "success_rate (float_quot E) (current_model_correct s) (current_model_count s) = Inr rc"
      and rn: "success_rate (float_quot E) (new_model_correct s) (new_model_count s) = Inr rn"
      and cmp: "u = (rn \<ge> rc)"
      by blast
    show ?calls
    proof (cases u)
      case True
      with p resp s' cmp have "rn \<ge> rc" "new_model E x = Inr p"
        "resp = [(''prediction'', JInt n), (''model_used'', JStr ''new'')]"
        "s' = s\<lparr>new_model_count := new_model_count s + 1,
               new_model_correct :=
                 new_model_correct s + (if random2 d < 8 / 10 then 1 else 0)\<rparr>"
        by (simp_all add: feedback_after_count)
      with rc rn x n show ?thesis
        by (intro exI [of _ rc] exI [of _ rn] exI [of _ x] exI [of _ p] exI [of _ n]) simp
    next
      case False
      with p resp s' cmp have "\<not> rn \<ge> rc" "current_model E x = Inr p"
        "resp = [(''prediction'', JInt n), (''model_used'', JStr ''current'')]"
        "s' = s\<lparr>current_model_count := current_model_count s + 1,
               current_model_correct :=
                 current_model_correct s + (if random2 d < 8 / 10 then 1 else 0)\<rparr>"
        by (simp_all add: feedback_after_count)
      with rc rn x n show ?thesis
        by (intro exI [of _ rc] exI [of _ rn] exI [of _ x] exI [of _ p] exI [of _ n]) simp
    qed
  next
    assume ?calls
    then obtain rc rn x p n where
      rc: "success_rate (float_quot E) (current_model_correct s) (current_model_count s) = Inr rc"
      and rn: "success_rate (float_quot E) (new_model_correct s) (new_model_count s) = Inr rn"
      and x: "reshape_row E (features data) = Inr x"
      and n: "py_int E p = Inr n"
      and sel: "if rn \<ge> rc
                then new_model E x = Inr p \<and>
                     resp = [(''prediction'', JInt n), (''model_used'', JStr ''new'')] \<and>
                     s' = s\<lparr>new_model_count := new_model_count s + 1,
                            new_model_correct :=
                              new_model_correct s + (if random2 d < 8 / 10 then 1 else 0)\<rparr>
                else current_model E x = Inr p \<and>
                     resp = [(''prediction'', JInt n), (''model_used'', JStr ''current'')] \<and>
                     s' = s\<lparr>current_model_count := current_model_count s + 1,
                            current_model_correct :=
                              current_model_correct s
                                + (if random2 d < 8 / 10 then 1 else 0)\<rparr>"
      by blast
    from choose exploit_of_rates [OF rc rn]
    have u: "choose_model E s d = Inr (rn \<ge> rc)"
      by simp
    from sel have p: "(if rn \<ge> rc then new_model E x else current_model E x) = Inr p"
      by (simp split: if_splits)
    from predict_bandit_body_run [OF x u p n]
    have "predict_bandit_body E s d data
        = (Inr [(''prediction'', JInt n),
                (''model_used'', JStr (if rn \<ge> rc then ''new'' else ''current''))],
           simulate_feedback (count_request s (rn \<ge> rc)) (rn \<ge> rc) (random2 d))" .
    with sel have "predict_bandit_body E s d data = (Inr resp, s')"
      by (simp add: feedback_after_count split: if_splits)
    then show ?answered
      by (simp add: predict_bandit_Inr)
  qed
  with rate choice show ?thesis
    by blast
qed

theorem predict_bandit_exploit_witness:
  "\<not> (3 / 4 :: rat) < epsilon \<and>
   choose_model toy_env initial_state
     \<lparr>random1 = 3 / 4, random_choice = False, random2 = 1 / 2\<rparr> = Inr True \<and>
   predict_bandit toy_env initial_state
     \<lparr>random1 = 3 / 4, random_choice = False, random2 = 1 / 2\<rparr> two_features
   = (Inr [(''prediction'', JInt 1), (''model_used'', JStr ''new'')],
      \<lparr>current_model_correct = 0, new_model_correct = 1,
       current_model_count = 0, new_model_count = 1\<rparr>) \<and>
   choose_model toy_env
     \<lparr>current_model_correct = 1, new_model_correct = 1,
      current_model_count = 2, new_model_count = 3\<rparr>
     \<lparr>random1 = 1 / 2, random_choice = True, random2 = 9 / 10\<rparr> = Inr False \<and>
   predict_bandit toy_env
     \<lparr>current_model_correct = 1, new_model_correct = 1,
      current_model_count = 2, new_model_count = 3\<rparr>
     \<lparr>random1 = 1 / 2, random_choice = True, random2 = 9 / 10\<rparr> two_features
   = (Inr [(''prediction'', JInt 0), (''model_used'', JStr ''current'')],
      \<lparr>current_model_correct = 1, new_model_correct = 1,
       current_model_count = 3, new_model_count = 3\<rparr>)"
proof -
  let ?d0 = "\<lparr>random1 = 3 / 4, random_choice = False, random2 = 1 / 2\<rparr>"
  let ?s1 = "\<lparr>current_model_correct = 1, new_model_correct = 1,
              current_model_count = 2, new_model_count = 3\<rparr>"
  let ?d1 = "\<lparr>random1 = 1 / 2, random_choice = True, random2 = 9 / 10\<rparr>"
  have draw0: "\<not> random1 ?d0 < epsilon" and draw1: "\<not> random1 ?d1 < epsilon"
    by (simp_all add: epsilon_def)
  have lib: "reshape_row toy_env (features two_features) = Inr [3, 4]"
    "new_model toy_env [3, 4] = Inr 1" "current_model toy_env [3, 4] = Inr 0"
    "py_int toy_env 1 = Inr 1" "py_int toy_env 0 = Inr 0"
    "float_quot toy_env = exact_quot"
    by (simp_all add: toy_defs)
  have rates0: "success_rate exact_quot 0 0 = Inr (0 :: rat)"
    by (simp add: success_rate_def)
  have rates1: "success_rate exact_quot 1 2 = Inr (1 / 2)"
    "success_rate exact_quot 1 3 = Inr (1 / 3)"
    by (simp_all add: success_rate_def py_truediv_def exact_quot_def)
  note at0 = predict_bandit_exploit [OF draw0,
      where E = toy_env and s = initial_state and data = two_features
        and resp = "[(''prediction'', JInt 1), (''model_used'', JStr ''new'')]"
        and s' = "\<lparr>current_model_correct = 0, new_model_correct = 1,
                   current_model_count = 0, new_model_count = 1\<rparr>"]
  note at1 = predict_bandit_exploit [OF draw1,
      where E = toy_env and s = "?s1" and data = two_features
        and resp = "[(''prediction'', JInt 0), (''model_used'', JStr ''current'')]"
        and s' = "\<lparr>current_model_correct = 1, new_model_correct = 1,
                   current_model_count = 3, new_model_count = 3\<rparr>"]
  have choice0: "choose_model toy_env initial_state ?d0 = Inr True"
    using at0 [THEN conjunct2, THEN conjunct1, rule_format, of 0 0]
    by (simp add: lib rates0 initial_state_def)
  have choice1: "choose_model toy_env ?s1 ?d1 = Inr False"
    using at1 [THEN conjunct2, THEN conjunct1, rule_format, of "1 / 2" "1 / 3"]
    by (simp add: lib rates1)
  have run0: "predict_bandit toy_env initial_state ?d0 two_features
      = (Inr [(''prediction'', JInt 1), (''model_used'', JStr ''new'')],
         \<lparr>current_model_correct = 0, new_model_correct = 1,
          current_model_count = 0, new_model_count = 1\<rparr>)"
    by (rule at0 [THEN conjunct2, THEN conjunct2, THEN iffD2],
        rule exI [of _ "0 :: rat"], rule exI [of _ "0 :: rat"],
        rule exI [of _ "[3, 4] :: int list"], rule exI [of _ "1 :: int"],
        rule exI [of _ "1 :: int"])
      (simp add: lib rates0 initial_state_def)
  have run1: "predict_bandit toy_env ?s1 ?d1 two_features
      = (Inr [(''prediction'', JInt 0), (''model_used'', JStr ''current'')],
         \<lparr>current_model_correct = 1, new_model_correct = 1,
          current_model_count = 3, new_model_count = 3\<rparr>)"
    by (rule at1 [THEN conjunct2, THEN conjunct2, THEN iffD2],
        rule exI [of _ "1 / 2 :: rat"], rule exI [of _ "1 / 3 :: rat"],
        rule exI [of _ "[3, 4] :: int list"], rule exI [of _ "0 :: int"],
        rule exI [of _ "0 :: int"])
      (simp add: lib rates1)
  from draw0 choice0 run0 choice1 run1 show ?thesis
    by simp
qed

text \<open>
  Claim C9. A success rate never divides by zero, whatever the counters are: the
  division is evaluated under \<open>count > 0\<close> only, so the rate is the quotient (or the
  overflow of the quotient) there and \<open>0\<close> elsewhere, and neither a rate nor the exploit
  branch raises \<open>ZeroDivisionError\<close>. In the initial state both rates are \<open>0\<close>, the branch
  compares \<open>0 >= 0\<close> and chooses the new model.
\<close>

theorem success_rate_never_divides_by_zero:
  "success_rate fq correct count
     = (if count > 0
        then (case fq correct count of None \<Rightarrow> Inl OverflowError | Some q \<Rightarrow> Inr q)
        else Inr 0) \<and>
   success_rate fq correct count \<noteq> Inl ZeroDivisionError \<and>
   exploit fq s \<noteq> Inl ZeroDivisionError \<and>
   success_rate fq (current_model_correct initial_state) (current_model_count initial_state)
     = Inr 0 \<and>
   success_rate fq (new_model_correct initial_state) (new_model_count initial_state)
     = Inr 0 \<and>
   exploit fq initial_state = Inr True"
proof -
  have rate: "success_rate fq c n
      = (if n > 0 then (case fq c n of None \<Rightarrow> Inl OverflowError | Some q \<Rightarrow> Inr q) else Inr 0)"
    for c n
    by (simp add: success_rate_def py_truediv_def)
  have distinct: "OverflowError \<noteq> ZeroDivisionError"
    by (simp add: OverflowError_def ZeroDivisionError_def)
  have no_zero: "success_rate fq c n \<noteq> Inl ZeroDivisionError" for c n
    using distinct by (simp add: rate split: option.splits)
  have exploit_no_zero: "exploit fq s \<noteq> Inl ZeroDivisionError"
    using no_zero by (auto simp: exploit_def split: sum.splits)
  have init: "exploit fq initial_state = Inr True"
    by (simp add: exploit_def success_rate_def initial_state_def)
  from rate no_zero exploit_no_zero init show ?thesis
    by (simp add: initial_state_def)
qed

theorem success_rate_never_divides_by_zero_witness:
  "success_rate exact_quot 1 2 = Inr (1 / 2) \<and>
   success_rate exact_quot 1 0 = Inr 0 \<and>
   exploit exact_quot initial_state = Inr True \<and>
   exploit exact_quot
     \<lparr>current_model_correct = 1, new_model_correct = 0,
      current_model_count = 1, new_model_count = 0\<rparr> = Inr False"
proof -
  have "exploit exact_quot
     \<lparr>current_model_correct = 1, new_model_correct = 0,
      current_model_count = 1, new_model_count = 0\<rparr> = Inr False"
    by (simp add: exploit_def success_rate_def py_truediv_def exact_quot_def)
  with success_rate_never_divides_by_zero [of exact_quot 1 2]
       success_rate_never_divides_by_zero [of exact_quot 1 0]
  show ?thesis
    by (simp add: exact_quot_def)
qed

subsection \<open>The counters of the bandit\<close>

text \<open>What one request does to the globals, whether it is answered or raises.\<close>

lemma predict_bandit_state:
  "snd (predict_bandit E s d data) = s \<or>
   (\<exists>u. snd (predict_bandit E s d data)
          = simulate_feedback (count_request s u) u (random2 d))"
proof -
  have "snd (predict_bandit_body E s d data) = s \<or>
      (\<exists>u. snd (predict_bandit_body E s d data)
             = simulate_feedback (count_request s u) u (random2 d))"
    unfolding predict_bandit_body_def Let_def
    by (simp split: sum.split) blast
  then show ?thesis
    by (cases "predict_bandit_body E s d data") (simp add: predict_bandit_def)
qed

lemma predict_bandit_keeps_order:
  assumes "current_model_correct s \<le> current_model_count s"
    and "new_model_correct s \<le> new_model_count s"
  shows "current_model_correct (snd (predict_bandit E s d data))
           \<le> current_model_count (snd (predict_bandit E s d data)) \<and>
         new_model_correct (snd (predict_bandit E s d data))
           \<le> new_model_count (snd (predict_bandit E s d data))"
proof -
  have step: "current_model_correct (simulate_feedback (count_request s u) u r)
        \<le> current_model_count (simulate_feedback (count_request s u) u r) \<and>
      new_model_correct (simulate_feedback (count_request s u) u r)
        \<le> new_model_count (simulate_feedback (count_request s u) u r)" for u r
    using assms by (simp add: simulate_feedback_simps count_request_simps)
  from predict_bandit_state [of E s d data] show ?thesis
  proof
    assume "snd (predict_bandit E s d data) = s"
    with assms show ?thesis by simp
  next
    assume "\<exists>u. snd (predict_bandit E s d data)
        = simulate_feedback (count_request s u) u (random2 d)"
    then obtain u where
      "snd (predict_bandit E s d data) = simulate_feedback (count_request s u) u (random2 d)" ..
    with step [of u "random2 d"] show ?thesis by simp
  qed
qed

lemma predict_bandit_counts_one:
  assumes "predict_bandit E s d data = (Inr resp, s')"
  shows "current_model_count s' + new_model_count s'
           = current_model_count s + new_model_count s + 1"
proof -
  from assms have "predict_bandit_body E s d data = (Inr resp, s')"
    by (simp add: predict_bandit_Inr)
  from predict_bandit_body_answer [OF this]
  obtain u where "s' = simulate_feedback (count_request s u) u (random2 d)"
    by blast
  then show ?thesis
    by (simp add: simulate_feedback_simps count_request_simps)
qed

text \<open>The same for a run of requests that are all answered, from any globals.\<close>

lemma serve_bandit_counters:
  assumes "serve_bandit E s reqs = (rs, s')"
    and "list_all answered rs"
    and "current_model_correct s \<le> current_model_count s"
    and "new_model_correct s \<le> new_model_count s"
  shows "current_model_correct s' \<le> current_model_count s' \<and>
         new_model_correct s' \<le> new_model_count s' \<and>
         current_model_count s' + new_model_count s'
           = current_model_count s + new_model_count s + int (length reqs)"
  using assms
proof (induction reqs arbitrary: s rs)
  case Nil
  then show ?case by simp
next
  case (Cons req reqs)
  obtain d data where req: "req = (d, data)"
    by (cases req)
  obtain res s1 where step: "predict_bandit E s d data = (res, s1)"
    by (cases "predict_bandit E s d data")
  from Cons.prems(1) req step
  obtain rs' where rest: "serve_bandit E s1 reqs = (rs', s')" and eq: "rs = res # rs'"
    by (cases "serve_bandit E s1 reqs") simp
  with Cons.prems(2) obtain resp where res: "res = Inr resp" and all: "list_all answered rs'"
    by (cases res) simp_all
  from predict_bandit_keeps_order [OF Cons.prems(3,4), of E d data] step
  have order: "current_model_correct s1 \<le> current_model_count s1"
    "new_model_correct s1 \<le> new_model_count s1"
    by simp_all
  from predict_bandit_counts_one [of E s d data resp s1] step res
  have one: "current_model_count s1 + new_model_count s1
      = current_model_count s + new_model_count s + 1"
    by simp
  from Cons.IH [OF rest all order] one show ?case
    by simp
qed

text \<open>
  Claim C8. From the initial globals, all four counters zero, after any run of
  requests to /predict/bandit served one after the other and all answered, the correct
  predictions counted for a model do not exceed its requests, the two counts of
  requests add up to the number of requests served, and one more answered request
  adds exactly one to that sum.
\<close>

theorem bandit_counters_invariant:
  assumes "serve_bandit E initial_state reqs = (rs, s)"
    and "list_all answered rs"
  shows "current_model_correct s \<le> current_model_count s \<and>
         new_model_correct s \<le> new_model_count s \<and>
         current_model_count s + new_model_count s = int (length reqs) \<and>
         (\<forall>d data resp s'. predict_bandit E s d data = (Inr resp, s') \<longrightarrow>
            current_model_count s' + new_model_count s'
              = current_model_count s + new_model_count s + 1)"
proof -
  have "current_model_correct initial_state \<le> current_model_count initial_state"
    and "new_model_correct initial_state \<le> new_model_count initial_state"
    by (simp_all add: initial_state_def)
  from serve_bandit_counters [OF assms this]
  have "current_model_correct s \<le> current_model_count s \<and>
      new_model_correct s \<le> new_model_count s \<and>
      current_model_count s + new_model_count s = int (length reqs)"
    by (simp add: initial_state_def)
  with predict_bandit_counts_one show ?thesis
    by blast
qed

theorem bandit_counters_invariant_witness:
  "serve_bandit toy_env initial_state
     [(\<lparr>random1 = 1 / 2, random_choice = False, random2 = 9 / 10\<rparr>, two_features),
      (\<lparr>random1 = 0, random_choice = False, random2 = 1 / 2\<rparr>, two_features)]
   = ([Inr [(''prediction'', JInt 1), (''model_used'', JStr ''new'')],
       Inr [(''prediction'', JInt 0), (''model_used'', JStr ''current'')]],
      \<lparr>current_model_correct = 1, new_model_correct = 0,
       current_model_count = 1, new_model_count = 1\<rparr>) \<and>
   (1 :: int) \<le> 1 \<and> (0 :: int) \<le> 1 \<and> (1 :: int) + 1 = int (length [0 :: nat, 1])"
proof -
  let ?reqs = "[(\<lparr>random1 = 1 / 2, random_choice = False, random2 = 9 / 10\<rparr>, two_features),
      (\<lparr>random1 = 0, random_choice = False, random2 = 1 / 2\<rparr>, two_features)]"
  let ?rs = "[Inr [(''prediction'', JInt 1), (''model_used'', JStr ''new'')],
       Inr [(''prediction'', JInt 0), (''model_used'', JStr ''current'')]]"
  let ?s = "\<lparr>current_model_correct = 1, new_model_correct = 0,
       current_model_count = 1, new_model_count = 1\<rparr>"
  have run: "serve_bandit toy_env initial_state ?reqs = (?rs, ?s)"
    by (simp add: predict_bandit_def predict_bandit_body_def catch_400_def choose_model_def
        count_request_def simulate_feedback_def exploit_def success_rate_def py_truediv_def
        epsilon_def initial_state_def toy_defs)
  have ok: "list_all answered ?rs"
    by simp
  from bandit_counters_invariant [OF run ok] run show ?thesis
    by simp
qed

subsection \<open>Silent deployment\<close>

lemma predict_silent_body_answer:
  assumes "predict_silent_body E data = (Inr resp, out)"
  shows "\<exists>x pc pn n.
           reshape_row E (features data) = Inr x \<and> current_model E x = Inr pc \<and>
           new_model E x = Inr pn \<and> py_int E pc = Inr n \<and>
           resp = [(''prediction'', JInt n)] \<and> out = [(pc, pn)]"
proof (cases "reshape_row E (features data)")
  case (Inl e)
  with assms show ?thesis
    by (simp add: predict_silent_body_def)
next
  case x: (Inr x)
  show ?thesis
  proof (cases "current_model E x")
    case (Inl e)
    with assms x show ?thesis
      by (simp add: predict_silent_body_def)
  next
    case pc: (Inr pc)
    show ?thesis
    proof (cases "new_model E x")
      case (Inl e)
      with assms x pc show ?thesis
        by (simp add: predict_silent_body_def)
    next
      case pn: (Inr pn)
      show ?thesis
      proof (cases "py_int E pc")
        case (Inl e)
        with assms x pc pn show ?thesis
          by (simp add: predict_silent_body_def)
      next
        case n: (Inr n)
        with assms x pc pn show ?thesis
          by (simp add: predict_silent_body_def)
      qed
    qed
  qed
qed

lemma predict_silent_Inr:
  "predict_silent E data = (Inr resp, out) \<longleftrightarrow> predict_silent_body E data = (Inr resp, out)"
  by (cases "predict_silent_body E data") (simp add: predict_silent_def catch_400_Inr)

lemma predict_silent_toy:
  "predict_silent toy_env two_features = (Inr [(''prediction'', JInt 0)], [(0, 1)])"
  by (simp add: predict_silent_def predict_silent_body_def catch_400_def toy_defs)

text \<open>
  Claim C5, as stated, fails: the /predict/silent handler never answers with the new
  model's prediction in place of the current model's. Where the two models disagree
  (the current model says \<open>0\<close>, the new model \<open>1\<close>) the answer is \<open>0\<close>, and no
  environment and request make the answer the \<open>int\<close> of the new model's prediction
  without its being the \<open>int\<close> of the current model's.
\<close>

theorem predict_silent_never_new:
  "predict_silent toy_env two_features = (Inr [(''prediction'', JInt 0)], [(0, 1)]) \<and>
   \<not> (\<exists>(E :: ('d, 'x, 'p, 'r) env) data resp out x pc pn n.
        predict_silent E data = (Inr resp, out) \<and>
        reshape_row E (features data) = Inr x \<and>
        current_model E x = Inr pc \<and> new_model E x = Inr pn \<and>
        py_int E pn = Inr n \<and> map_of resp ''prediction'' = Some (JInt n) \<and>
        py_int E pc \<noteq> Inr n)"
proof -
  have "False"
    if run: "predict_silent E data = (Inr resp, out)"
      and x: "reshape_row E (features data) = Inr x"
      and pc: "current_model E x = Inr pc"
      and n: "map_of resp ''prediction'' = Some (JInt n)"
      and differ: "py_int E pc \<noteq> Inr n"
    for E :: "('d, 'x, 'p, 'r) env" and data resp out x pc n
  proof -
    from run have "predict_silent_body E data = (Inr resp, out)"
      by (simp add: predict_silent_Inr)
    from predict_silent_body_answer [OF this] x pc
    obtain m where "py_int E pc = Inr m" "resp = [(''prediction'', JInt m)]"
      by auto
    with n differ show False
      by simp
  qed
  then have "\<not> (\<exists>(E :: ('d, 'x, 'p, 'r) env) data resp out x pc pn n.
        predict_silent E data = (Inr resp, out) \<and>
        reshape_row E (features data) = Inr x \<and>
        current_model E x = Inr pc \<and> new_model E x = Inr pn \<and>
        py_int E pn = Inr n \<and> map_of resp ''prediction'' = Some (JInt n) \<and>
        py_int E pc \<noteq> Inr n)"
    by blast
  with predict_silent_toy show ?thesis
    by blast
qed

text \<open>
  Claim C5, amended. The /predict/silent handler does not split traffic: a request
  that is answered has asked both models, has printed the two predictions, and
  carries the current model's prediction (converted by \<open>int\<close>) and nothing else.
\<close>

theorem predict_silent_returns_current:
  assumes "predict_silent E data = (Inr resp, out)"
  shows "\<exists>x pc pn n.
           reshape_row E (features data) = Inr x \<and> current_model E x = Inr pc \<and>
           new_model E x = Inr pn \<and> py_int E pc = Inr n \<and>
           resp = [(''prediction'', JInt n)] \<and> out = [(pc, pn)]"
proof -
  from assms have "predict_silent_body E data = (Inr resp, out)"
    by (simp add: predict_silent_Inr)
  then show ?thesis
    by (rule predict_silent_body_answer)
qed

theorem predict_silent_returns_current_witness:
  "predict_silent toy_env two_features = (Inr [(''prediction'', JInt 0)], [(0, 1)]) \<and>
   (\<exists>x. reshape_row toy_env (features two_features) = Inr x \<and>
      current_model toy_env x = Inr 0 \<and> new_model toy_env x = Inr 1 \<and>
      py_int toy_env 0 = Inr 0)"
proof -
  from predict_silent_returns_current [OF predict_silent_toy] show ?thesis
    by (simp add: predict_silent_toy)
qed

subsection \<open>The globals of the bandit\<close>

text \<open>
  Claim C2, as stated, fails: the router's globals are not a pair of counters. Two
  answered requests from the initial state, one explored to each model, change four
  different globals; and each of the four decides the exploit branch: from the state
  with one correct prediction out of two requests for either model, where the new
  model is chosen, a change of any single counter makes the choice the current model.
\<close>

theorem bandit_state_not_a_pair:
  "snd (serve_bandit toy_env initial_state
     [(\<lparr>random1 = 0, random_choice = True, random2 = 0\<rparr>, two_features),
      (\<lparr>random1 = 0, random_choice = False, random2 = 0\<rparr>, two_features)])
   = \<lparr>current_model_correct = 1, new_model_correct = 1,
      current_model_count = 1, new_model_count = 1\<rparr> \<and>
   current_model_correct initial_state = 0 \<and> new_model_correct initial_state = 0 \<and>
   current_model_count initial_state = 0 \<and> new_model_count initial_state = 0 \<and>
   exploit exact_quot \<lparr>current_model_correct = 1, new_model_correct = 1,
                       current_model_count = 2, new_model_count = 2\<rparr> = Inr True \<and>
   exploit exact_quot \<lparr>current_model_correct = 2, new_model_correct = 1,
                       current_model_count = 2, new_model_count = 2\<rparr> = Inr False \<and>
   exploit exact_quot \<lparr>current_model_correct = 1, new_model_correct = 0,
                       current_model_count = 2, new_model_count = 2\<rparr> = Inr False \<and>
   exploit exact_quot \<lparr>current_model_correct = 1, new_model_correct = 1,
                       current_model_count = 1, new_model_count = 2\<rparr> = Inr False \<and>
   exploit exact_quot \<lparr>current_model_correct = 1, new_model_correct = 1,
                       current_model_count = 2, new_model_count = 3\<rparr> = Inr False"
proof -
  have run: "snd (serve_bandit toy_env initial_state
     [(\<lparr>random1 = 0, random_choice = True, random2 = 0\<rparr>, two_features),
      (\<lparr>random1 = 0, random_choice = False, random2 = 0\<rparr>, two_features)])
   = \<lparr>current_model_correct = 1, new_model_correct = 1,
      current_model_count = 1, new_model_count = 1\<rparr>"
    by (simp add: predict_bandit_def predict_bandit_body_def catch_400_def choose_model_def
        count_request_def simulate_feedback_def epsilon_def initial_state_def toy_defs)
  have choices:
    "exploit exact_quot \<lparr>current_model_correct = 1, new_model_correct = 1,
                       current_model_count = 2, new_model_count = 2\<rparr> = Inr True"
    "exploit exact_quot \<lparr>current_model_correct = 2, new_model_correct = 1,
                       current_model_count = 2, new_model_count = 2\<rparr> = Inr False"
    "exploit exact_quot \<lparr>current_model_correct = 1, new_model_correct = 0,
                       current_model_count = 2, new_model_count = 2\<rparr> = Inr False"
    "exploit exact_quot \<lparr>current_model_correct = 1, new_model_correct = 1,
                       current_model_count = 1, new_model_count = 2\<rparr> = Inr False"
    "exploit exact_quot \<lparr>current_model_correct = 1, new_model_correct = 1,
                       current_model_count = 2, new_model_count = 3\<rparr> = Inr False"
    by (simp_all add: exploit_def success_rate_def py_truediv_def exact_quot_def)
  from run choices show ?thesis
    by (simp add: initial_state_def)
qed

lemma exploit_reads_each_counter:
  "exploit exact_quot \<lparr>current_model_correct = 1, new_model_correct = 1,
                       current_model_count = 2, new_model_count = 2\<rparr> = Inr True"
  "exploit exact_quot \<lparr>current_model_correct = 2, new_model_correct = 1,
                       current_model_count = 2, new_model_count = 2\<rparr> = Inr False"
  "exploit exact_quot \<lparr>current_model_correct = 1, new_model_correct = 0,
                       current_model_count = 2, new_model_count = 2\<rparr> = Inr False"
  "exploit exact_quot \<lparr>current_model_correct = 1, new_model_correct = 1,
                       current_model_count = 1, new_model_count = 2\<rparr> = Inr False"
  "exploit exact_quot \<lparr>current_model_correct = 1, new_model_correct = 1,
                       current_model_count = 2, new_model_count = 3\<rparr> = Inr False"
  by (simp_all add: exploit_def success_rate_def py_truediv_def exact_quot_def)

text \<open>
  Claim C2, amended. The mutable state of the router is four global integer counters:
  for each of the two models the requests it has answered and the predictions counted
  as correct.
  \<^item> A request leaves the four as they are when the row cannot be built, the choice of
    the model raises or the model chosen raises; otherwise it adds one to the requests
    of the model chosen and one (feedback draw below \<open>0.8\<close>) or nothing to its correct
    predictions, and leaves the other model's two counters as they are.
  \<^item> When the request is answered, the model chosen is the one \<open>model_used\<close> names
    and the one whose prediction is returned.
  \<^item> The exploit branch chooses by comparing the rate of \<open>new_model_correct\<close> and
    \<open>new_model_count\<close> with the rate of \<open>current_model_correct\<close> and
    \<open>current_model_count\<close>, and a change of any one of the four alone can change the
    choice.
\<close>

theorem bandit_state_four_counters:
  "snd (predict_bandit E s d data)
     = (case reshape_row E (features data) of
          Inl e \<Rightarrow> s
        | Inr x \<Rightarrow>
            (case choose_model E s d of
               Inl e \<Rightarrow> s
             | Inr use_new_model \<Rightarrow>
                 (case (if use_new_model then new_model E x else current_model E x) of
                    Inl e \<Rightarrow> s
                  | Inr p \<Rightarrow>
                      if use_new_model
                      then s\<lparr>new_model_count := new_model_count s + 1,
                             new_model_correct :=
                               new_model_correct s + (if random2 d < 8 / 10 then 1 else 0)\<rparr>
                      else s\<lparr>current_model_count := current_model_count s + 1,
                             current_model_correct :=
                               current_model_correct s
                                 + (if random2 d < 8 / 10 then 1 else 0)\<rparr>))) \<and>
   (\<forall>resp s'. predict_bandit E s d data = (Inr resp, s') \<longrightarrow>
      (\<exists>use_new_model x p n.
         choose_model E s d = Inr use_new_model \<and>
         reshape_row E (features data) = Inr x \<and>
         (if use_new_model then new_model E x else current_model E x) = Inr p \<and>
         py_int E p = Inr n \<and>
         resp = [(''prediction'', JInt n),
                 (''model_used'', JStr (if use_new_model then ''new'' else ''current''))] \<and>
         s' = (if use_new_model
               then s\<lparr>new_model_count := new_model_count s + 1,
                      new_model_correct :=
                        new_model_correct s + (if random2 d < 8 / 10 then 1 else 0)\<rparr>
               else s\<lparr>current_model_count := current_model_count s + 1,
                      current_model_correct :=
                        current_model_correct s
                          + (if random2 d < 8 / 10 then 1 else 0)\<rparr>))) \<and>
   (\<forall>current_rate new_rate.
      success_rate (float_quot E) (current_model_correct s) (current_model_count s)
        = Inr current_rate \<and>
      success_rate (float_quot E) (new_model_correct s) (new_model_count s) = Inr new_rate
      \<longrightarrow> exploit (float_quot E) s = Inr (new_rate \<ge> current_rate)) \<and>
   (\<exists>t. exploit exact_quot t
          \<noteq> exploit exact_quot (t\<lparr>current_model_correct := current_model_correct t + 1\<rparr>)) \<and>
   (\<exists>t. exploit exact_quot t
          \<noteq> exploit exact_quot (t\<lparr>new_model_correct := new_model_correct t + 1\<rparr>)) \<and>
   (\<exists>t. exploit exact_quot t
          \<noteq> exploit exact_quot (t\<lparr>current_model_count := current_model_count t + 1\<rparr>)) \<and>
   (\<exists>t. exploit exact_quot t
          \<noteq> exploit exact_quot (t\<lparr>new_model_count := new_model_count t + 1\<rparr>))"
    (is "?state \<and> ?used \<and> ?compare \<and> ?cc \<and> ?nc \<and> ?cn \<and> ?nn")
proof -
  have state: ?state
  proof -
    have "snd (predict_bandit E s d data) = snd (predict_bandit_body E s d data)"
      by (cases "predict_bandit_body E s d data") (simp add: predict_bandit_def)
    then show ?thesis
      by (simp add: predict_bandit_body_state feedback_after_count
          split: sum.split)
  qed
  have used: ?used
  proof (intro allI impI)
    fix resp s'
    assume "predict_bandit E s d data = (Inr resp, s')"
    then have "predict_bandit_body E s d data = (Inr resp, s')"
      by (simp add: predict_bandit_Inr)
    from predict_bandit_body_answer [OF this]
    obtain u x p n where "choose_model E s d = Inr u"
      "reshape_row E (features data) = Inr x"
      "(if u then new_model E x else current_model E x) = Inr p"
      "py_int E p = Inr n"
      "resp = [(''prediction'', JInt n),
               (''model_used'', JStr (if u then ''new'' else ''current''))]"
      "s' = simulate_feedback (count_request s u) u (random2 d)"
      by blast
    then show "\<exists>use_new_model x p n.
         choose_model E s d = Inr use_new_model \<and>
         reshape_row E (features data) = Inr x \<and>
         (if use_new_model then new_model E x else current_model E x) = Inr p \<and>
         py_int E p = Inr n \<and>
         resp = [(''prediction'', JInt n),
                 (''model_used'', JStr (if use_new_model then ''new'' else ''current''))] \<and>
         s' = (if use_new_model
               then s\<lparr>new_model_count := new_model_count s + 1,
                      new_model_correct :=
                        new_model_correct s + (if random2 d < 8 / 10 then 1 else 0)\<rparr>
               else s\<lparr>current_model_count := current_model_count s + 1,
                      current_model_correct :=
                        current_model_correct s
                          + (if random2 d < 8 / 10 then 1 else 0)\<rparr>)"
      by (intro exI [of _ u] exI [of _ x] exI [of _ p] exI [of _ n])
        (simp add: feedback_after_count)
  qed
  have compare: ?compare
    by (simp add: exploit_of_rates)
  let ?t = "\<lparr>current_model_correct = 1, new_model_correct = 1,
             current_model_count = 2, new_model_count = 2\<rparr>"
  let ?t' = "\<lparr>current_model_correct = 1, new_model_correct = 0,
              current_model_count = 2, new_model_count = 2\<rparr>"
  let ?t'' = "\<lparr>current_model_correct = 1, new_model_correct = 1,
               current_model_count = 1, new_model_count = 2\<rparr>"
  have cc: ?cc
    using exploit_reads_each_counter(1,2) by (intro exI [of _ ?t]) simp
  have nc: ?nc
    using exploit_reads_each_counter(1,3) by (intro exI [of _ ?t']) simp
  have cn: ?cn
    using exploit_reads_each_counter(1,4) by (intro exI [of _ ?t'']) simp
  have nn: ?nn
    using exploit_reads_each_counter(1,5) by (intro exI [of _ ?t]) simp
  from state used compare cc nc cn nn show ?thesis
    by (intro conjI)
qed

theorem bandit_state_four_counters_witness:
  "predict_bandit toy_env initial_state
     \<lparr>random1 = 0, random_choice = True, random2 = 0\<rparr> two_features
     = (Inr [(''prediction'', JInt 1), (''model_used'', JStr ''new'')],
        \<lparr>current_model_correct = 0, new_model_correct = 1,
         current_model_count = 0, new_model_count = 1\<rparr>) \<and>
   choose_model toy_env initial_state
     \<lparr>random1 = 0, random_choice = True, random2 = 0\<rparr> = Inr True \<and>
   snd (predict_bandit toy_env initial_state
          \<lparr>random1 = 0, random_choice = False, random2 = 9 / 10\<rparr> two_features)
     = \<lparr>current_model_correct = 0, new_model_correct = 0,
        current_model_count = 1, new_model_count = 0\<rparr> \<and>
   snd (predict_bandit toy_env initial_state
          \<lparr>random1 = 0, random_choice = False, random2 = 0\<rparr> no_features)
     = initial_state"
proof -
  let ?d = "\<lparr>random1 = 0, random_choice = True, random2 = 0\<rparr>"
  have run: "predict_bandit toy_env initial_state ?d two_features
     = (Inr [(''prediction'', JInt 1), (''model_used'', JStr ''new'')],
        \<lparr>current_model_correct = 0, new_model_correct = 1,
         current_model_count = 0, new_model_count = 1\<rparr>)"
    by (simp add: predict_bandit_def predict_bandit_body_def catch_400_def choose_model_def
        count_request_def simulate_feedback_def epsilon_def initial_state_def toy_defs)
  have lib: "reshape_row toy_env (features two_features) = Inr [3, 4]"
    "reshape_row toy_env (features no_features)
       = Inl (Raised ''ValueError'' ''cannot reshape array of size 0'')"
    "current_model toy_env [3, 4] = Inr 0"
    by (simp_all add: toy_defs)
  have choice: "choose_model toy_env initial_state
      \<lparr>random1 = 0, random_choice = False, random2 = 9 / 10\<rparr> = Inr False"
    by (simp add: choose_model_def epsilon_def)
  from bandit_state_four_counters [of toy_env initial_state ?d two_features] run
  have used: "choose_model toy_env initial_state ?d = Inr True"
    by (auto split: if_splits)
  from bandit_state_four_counters
         [of toy_env initial_state
             "\<lparr>random1 = 0, random_choice = False, random2 = 9 / 10\<rparr>" two_features]
       lib choice
  have cur: "snd (predict_bandit toy_env initial_state
          \<lparr>random1 = 0, random_choice = False, random2 = 9 / 10\<rparr> two_features)
     = \<lparr>current_model_correct = 0, new_model_correct = 0,
        current_model_count = 1, new_model_count = 0\<rparr>"
    by (simp add: initial_state_def)
  from bandit_state_four_counters
         [of toy_env initial_state
             "\<lparr>random1 = 0, random_choice = False, random2 = 0\<rparr>" no_features]
       lib
  have none: "snd (predict_bandit toy_env initial_state
          \<lparr>random1 = 0, random_choice = False, random2 = 0\<rparr> no_features)
     = initial_state"
    by simp
  from run used cur none show ?thesis
    by (intro conjI)
qed

section \<open>The two epsilon-greedy routers compared\<close>

lemma exploit_rates:
  assumes "success_rate fq (current_model_correct s) (current_model_count s) = Inr current_rate"
    and "success_rate fq (new_model_correct s) (new_model_count s) = Inr new_rate"
  shows "exploit fq s = Inr (new_rate \<ge> current_rate)"
    and "mab_exploit fq (mab_of_bandit s) = Inr (if current_rate \<ge> new_rate then A else B)"
  using assms by (simp_all add: exploit_def mab_exploit_def mab_of_bandit_def)

text \<open>
  Claim C10, as stated, fails: with the current model as model A and the new model as
  model B, the two exploit branches disagree on a tie. On the all-zero counters, and on
  one correct prediction out of two requests for either model, the handler chooses the
  new model (arm B) and the function chooses arm A.
\<close>

theorem exploit_choices_differ_on_tie:
  "exploit exact_quot initial_state = Inr True \<and>
   mab_exploit exact_quot (mab_of_bandit initial_state) = Inr A \<and>
   exploit exact_quot \<lparr>current_model_correct = 1, new_model_correct = 1,
                       current_model_count = 2, new_model_count = 2\<rparr> = Inr True \<and>
   mab_exploit exact_quot
     (mab_of_bandit \<lparr>current_model_correct = 1, new_model_correct = 1,
                     current_model_count = 2, new_model_count = 2\<rparr>) = Inr A \<and>
   arm_of True \<noteq> A"
  by (simp add: exploit_def mab_exploit_def mab_of_bandit_def success_rate_def py_truediv_def
      exact_quot_def initial_state_def arm_of_def)

text \<open>
  Claim C10, amended. On corresponding counters the two exploit branches compute the
  same two rates, and raise the same exception when a rate raises. They choose
  corresponding arms exactly when the two rates differ; when the rates are equal the
  handler chooses the new model and the function model A, the current model's
  counterpart.
\<close>

theorem exploit_choices_agree_unless_tie:
  assumes "success_rate fq (current_model_correct s) (current_model_count s) = Inr current_rate"
    and "success_rate fq (new_model_correct s) (new_model_count s) = Inr new_rate"
  shows "exploit fq s = Inr (new_rate \<ge> current_rate) \<and>
         mab_exploit fq (mab_of_bandit s) = Inr (if current_rate \<ge> new_rate then A else B) \<and>
         (map_sum id arm_of (exploit fq s) = mab_exploit fq (mab_of_bandit s)
            \<longleftrightarrow> new_rate \<noteq> current_rate) \<and>
         (\<forall>e. exploit fq s = Inl e \<longleftrightarrow> mab_exploit fq (mab_of_bandit s) = Inl e)"
proof -
  note both = exploit_rates [OF assms]
  have agree: "map_sum id arm_of (exploit fq s) = mab_exploit fq (mab_of_bandit s)
      \<longleftrightarrow> new_rate \<noteq> current_rate"
  proof (cases "new_rate = current_rate")
    case True
    with both show ?thesis
      by (simp add: arm_of_def)
  next
    case False
    with both show ?thesis
      by (auto simp: arm_of_def)
  qed
  from both agree show ?thesis
    by simp
qed

theorem exploit_choices_agree_unless_tie_witness:
  "success_rate exact_quot 1 2 = Inr (1 / 2) \<and> success_rate exact_quot 2 3 = Inr (2 / 3) \<and>
   exploit exact_quot \<lparr>current_model_correct = 1, new_model_correct = 2,
                       current_model_count = 2, new_model_count = 3\<rparr> = Inr True \<and>
   mab_exploit exact_quot
     (mab_of_bandit \<lparr>current_model_correct = 1, new_model_correct = 2,
                     current_model_count = 2, new_model_count = 3\<rparr>) = Inr B \<and>
   arm_of True = B"
proof -
  let ?s = "\<lparr>current_model_correct = 1, new_model_correct = 2,
             current_model_count = 2, new_model_count = 3\<rparr>"
  have cur: "success_rate exact_quot (current_model_correct ?s) (current_model_count ?s)
      = Inr (1 / 2)"
    by (simp add: success_rate_def py_truediv_def exact_quot_def)
  have new: "success_rate exact_quot (new_model_correct ?s) (new_model_count ?s) = Inr (2 / 3)"
    by (simp add: success_rate_def py_truediv_def exact_quot_def)
  from exploit_choices_agree_unless_tie [OF cur new] cur new show ?thesis
    by (simp add: arm_of_def)
qed

text \<open>
  The function itself ends with two divisions that no test guards: with no round at all
  it raises \<open>ZeroDivisionError\<close>.
\<close>

lemma multi_armed_bandit_unguarded:
  "multi_armed_bandit ma mb X y eps fq [] = Inl ZeroDivisionError"
  by (simp add: multi_armed_bandit_def mab_initial_def py_truediv_def)

section \<open>The routes of the application\<close>




section \<open>The YAML configuration example\<close>

lemma config_yaml_loaded:
  "safe_load config_yaml =
     Inr (Dict
       [([''project_name''], YStr ''my_ml_project''),
        ([''experiment'', ''name''], YStr ''baseline_model''),
        ([''experiment'', ''type''], YStr ''classification''),
        ([''data'', ''source''], YStr ''data/iris.csv''),
        ([''data'', ''validation_split''], YFloat (2 / 10)),
        ([''data'', ''test_split''], YFloat (1 / 10)),
        ([''model'', ''type''], YStr ''random_forest''),
        ([''model'', ''hyperparameters'', ''n_estimators''], YInt 100),
        ([''model'', ''hyperparameters'', ''max_depth''], YInt 5),
        ([''model'', ''hyperparameters'', ''random_state''], YInt 42),
        ([''output'', ''model_path''], YStr ''models/''),
        ([''output'', ''logs_path''], YStr ''logs/'')])"
  by code_simp

text \<open>
  Claim C7. Loaded, the example document is a mapping with exactly the five top-level
  keys \<open>project_name\<close>, \<open>experiment\<close>, \<open>data\<close>, \<open>model\<close> and \<open>output\<close>: a project name, the
  experiment's name and type, the data source with its two split ratios, the model type
  with its hyperparameters, and the two output paths. Reading
  \<open>config['experiment']['name']\<close> yields the string \<open>baseline_model\<close>.
\<close>

theorem config_yaml_sections:
  "map_sum id keys (safe_load config_yaml)
     = Inr [''project_name'', ''experiment'', ''data'', ''model'', ''output''] \<and>
   experiment_name config_yaml = Inr (Leaf (YStr ''baseline_model'')) \<and>
   map (\<lambda>k. (k, case safe_load config_yaml of
                    Inl e \<Rightarrow> Inl e
                  | Inr config \<Rightarrow> map_sum id keys (getitem config k)))
       [''project_name'', ''experiment'', ''data'', ''model'', ''output'']
     = [(''project_name'', Inr []),
        (''experiment'', Inr [''name'', ''type'']),
        (''data'', Inr [''source'', ''validation_split'', ''test_split'']),
        (''model'', Inr [''type'', ''hyperparameters'']),
        (''output'', Inr [''model_path'', ''logs_path''])]"
proof -
  have top: "map_sum id keys (safe_load config_yaml)
      = Inr [''project_name'', ''experiment'', ''data'', ''model'', ''output'']"
    by (simp add: config_yaml_loaded)
  have name: "experiment_name config_yaml = Inr (Leaf (YStr ''baseline_model''))"
    by (simp add: experiment_name_def config_yaml_loaded)
  have sections: "map (\<lambda>k. (k, case safe_load config_yaml of
                    Inl e \<Rightarrow> Inl e
                  | Inr config \<Rightarrow> map_sum id keys (getitem config k)))
       [''project_name'', ''experiment'', ''data'', ''model'', ''output'']
     = [(''project_name'', Inr []),
        (''experiment'', Inr [''name'', ''type'']),
        (''data'', Inr [''source'', ''validation_split'', ''test_split'']),
        (''model'', Inr [''type'', ''hyperparameters'']),
        (''output'', Inr [''model_path'', ''logs_path''])]"
    by (simp add: config_yaml_loaded)
  from top name sections show ?thesis
    by (intro conjI)
qed

end
